theory Spec2Isabelle
  imports Complex_Main "HOL-Library.Word"
begin

section \<open>JavaScript values\<close>

text \<open>
  A JavaScript string is a sequence of UTF-16 code units; the regular expressions of the
  program carry no \<open>u\<close> flag, so they work on code units too. Numbers are modelled as
  exact real numbers: every quantity below is a pixel or millimetre measure far inside the
  range where a double is exact on integers, and rounding of fractions is not modelled.
\<close>

type_synonym jsstring = "16 word list"

definition js :: "string \<Rightarrow> jsstring" where
  "js s = map (\<lambda>c. of_nat (of_char c)) s"

definition NL :: "16 word" where
  "NL = 0x0A"

definition SP :: "16 word" where
  "SP = 0x20"

section \<open>Page-break insertion (App.tsx, handleDownloadReportPDF, step 4)\<close>

text \<open>
  One \<open>.pdf-item\<close> element of the staged clone, as the loop reads and writes it:
  \<open>el.offsetHeight\<close>, \<open>parseFloat\<close> of the two computed margins (\<open>None\<close> is
  \<open>NaN\<close>), and the inline \<open>style.marginTop\<close> in pixels (\<open>None\<close> when unset).
\<close>

record pdf_item =
  offsetHeight :: int
  computedMarginTop :: "real option"
  computedMarginBottom :: "real option"
  styleMarginTop :: "real option"

text \<open>\<open>x || 0\<close> on a number: \<open>NaN\<close> and \<open>0\<close> give \<open>0\<close>, anything else is kept.\<close>

definition or0 :: "real option \<Rightarrow> real" where
  "or0 v = (case v of None \<Rightarrow> 0 | Some x \<Rightarrow> x)"

definition marginTop :: "pdf_item \<Rightarrow> real" where
  "marginTop el = or0 (computedMarginTop el)"

definition marginBottom :: "pdf_item \<Rightarrow> real" where
  "marginBottom el = or0 (computedMarginBottom el)"

definition totalItemHeight :: "pdf_item \<Rightarrow> real" where
  "totalItemHeight el = of_int (offsetHeight el) + marginTop el + marginBottom el"

definition A4_HEIGHT_PX :: real where
  "A4_HEIGHT_PX = 1123"

definition PADDING_BOTTOM :: real where
  "PADDING_BOTTOM = 60"

definition PAGE_CONTENT_HEIGHT :: real where
  "PAGE_CONTENT_HEIGHT = A4_HEIGHT_PX - PADDING_BOTTOM"

text \<open>
  The body of \<open>items.forEach\<close>, with the page content height as a parameter (the
  program passes \<open>PAGE_CONTENT_HEIGHT\<close>). It returns the new cursor and the element,
  whose inline top margin is rewritten in the straddling branch only.

  The arithmetic is exact. The program computes in doubles, which give the same values
  as long as every measurement is a whole number of pixels of moderate size (see
  \<open>exact_pixels\<close> below); with fractional margins the program's cursor is rounded
  and can fall on the other side of a page boundary than the exact one.
\<close>

definition paginate_step :: "real \<Rightarrow> real \<Rightarrow> pdf_item \<Rightarrow> real \<times> pdf_item" where
  "paginate_step pageH currentY el =
     (let endPosition = currentY + totalItemHeight el;
          currentPageIndex = \<lfloor>currentY / pageH\<rfloor>;
          endPageIndex = \<lfloor>endPosition / pageH\<rfloor>
      in if currentPageIndex \<noteq> endPageIndex then
           (let remainingSpaceOnPage = (of_int (currentPageIndex + 1) * pageH) - currentY;
                pushDownAmount = remainingSpaceOnPage + 40
            in (currentY + (pushDownAmount + totalItemHeight el),
                el\<lparr>styleMarginTop := Some (marginTop el + pushDownAmount)\<rparr>))
         else (currentY + totalItemHeight el, el))"

text \<open>The whole \<open>forEach\<close>: the final cursor and the elements in document order.\<close>

fun paginate_items :: "real \<Rightarrow> real \<Rightarrow> pdf_item list \<Rightarrow> real \<times> pdf_item list" where
  "paginate_items pageH currentY [] = (currentY, [])"
| "paginate_items pageH currentY (el # els) =
     (case paginate_step pageH currentY el of
        (y, el') \<Rightarrow> (case paginate_items pageH y els of (yf, els') \<Rightarrow> (yf, el' # els')))"

text \<open>The cursor starts at the header's height when the clone has a header, else at 0.\<close>

definition initialY :: "int option \<Rightarrow> real" where
  "initialY header = (case header of None \<Rightarrow> 0 | Some h \<Rightarrow> 0 + of_int h)"

definition paginate :: "int option \<Rightarrow> pdf_item list \<Rightarrow> real \<times> pdf_item list" where
  "paginate header items = paginate_items PAGE_CONTENT_HEIGHT (initialY header) items"

text \<open>
  The test of the \<open>if\<close> in the loop body: the element would start on one page and end
  on another.
\<close>

definition straddles :: "real \<Rightarrow> real \<Rightarrow> pdf_item \<Rightarrow> bool" where
  "straddles pageH currentY el =
     (\<lfloor>currentY / pageH\<rfloor> \<noteq> \<lfloor>(currentY + totalItemHeight el) / pageH\<rfloor>)"

text \<open>
  The staged column after the pass, read from the elements the pass returns. The top
  margin in effect is the inline \<open>style.marginTop\<close> when it is set and the measured
  one otherwise. Elements are stacked from \<open>y\<close> without collapsing margins, as the
  cursor assumes: an element's margin box ends at \<open>bottom\<close>, and its own extent (its
  measured total height) is the last part of that box, below whatever space its top
  margin gained.
\<close>

definition topMargin :: "pdf_item \<Rightarrow> real" where
  "topMargin el = (case styleMarginTop el of None \<Rightarrow> marginTop el | Some m \<Rightarrow> m)"

fun adjusted :: "real \<Rightarrow> pdf_item list \<Rightarrow> (real \<times> real) list" where
  "adjusted y [] = []"
| "adjusted y (el # els) =
     (let bottom = y + (topMargin el + of_int (offsetHeight el) + marginBottom el)
      in (bottom - totalItemHeight el, bottom) # adjusted bottom els)"

text \<open>
  An element as it is measured before the pass: an inline top margin, if it has one, is
  the top margin that was measured.
\<close>

definition as_measured :: "pdf_item \<Rightarrow> bool" where
  "as_measured el = (case styleMarginTop el of None \<Rightarrow> True | Some m \<Rightarrow> m = marginTop el)"

text \<open>
  Runs on which the program's doubles and the exact arithmetic agree: the page height,
  the starting offset and all margins are whole numbers, and the sizes add up to less
  than \<open>2 ^ 53\<close>, so that every intermediate value is an integer a double holds
  exactly and every quotient is floored alike.
\<close>

definition whole :: "real \<Rightarrow> bool" where
  "whole x = (of_int \<lfloor>x\<rfloor> = x)"

definition item_size :: "real \<Rightarrow> pdf_item \<Rightarrow> real" where
  "item_size pageH el =
     \<bar>of_int (offsetHeight el)\<bar> + \<bar>marginTop el\<bar> + \<bar>marginBottom el\<bar> + pageH + 40"

definition exact_pixels :: "real \<Rightarrow> real \<Rightarrow> pdf_item list \<Rightarrow> bool" where
  "exact_pixels pageH y0 items =
     (whole pageH \<and> whole y0
      \<and> list_all (\<lambda>el. whole (marginTop el) \<and> whole (marginBottom el)) items
      \<and> \<bar>y0\<bar> + sum_list (map (item_size pageH) items) < 2 ^ 53)"

text \<open>
  An element with the given height and measured margins and no inline margin, and one
  whose two margins parse to \<open>NaN\<close>.
\<close>

definition block :: "int \<Rightarrow> real \<Rightarrow> real \<Rightarrow> pdf_item" where
  "block h mt mb = \<lparr>offsetHeight = h, computedMarginTop = Some mt,
                    computedMarginBottom = Some mb, styleMarginTop = None\<rparr>"

definition nan_block :: "int \<Rightarrow> pdf_item" where
  "nan_block h = \<lparr>offsetHeight = h, computedMarginTop = None,
                  computedMarginBottom = None, styleMarginTop = None\<rparr>"

text \<open>
  The cursor after the first \<open>k\<close> elements of the list have been processed, and the
  hypothesis of the geometric claims: a measured height and margins that are not negative.
\<close>

definition cursorAt :: "real \<Rightarrow> real \<Rightarrow> pdf_item list \<Rightarrow> nat \<Rightarrow> real" where
  "cursorAt pageH y0 items k = fst (paginate_items pageH y0 (take k items))"

definition nonneg_item :: "pdf_item \<Rightarrow> bool" where
  "nonneg_item el = (0 \<le> offsetHeight el \<and> 0 \<le> marginTop el \<and> 0 \<le> marginBottom el)"

section \<open>Slicer (step 6 of handleDownloadReportPDF, step 9 of handleDownloadPDF)\<close>

text \<open>
  What the program uses of a jsPDF document: a new document has one empty page,
  \<open>addPage\<close> appends a page and makes it current, \<open>addImage\<close> draws on the current
  page. An image is drawn at x = 0 throughout, so a placement keeps y, width and height.
\<close>

record placed_image =
  imgY :: real
  imgW :: real
  imgH :: real

record pdf_doc =
  finished :: "placed_image list list"
  current :: "placed_image list"

definition new_jsPDF :: pdf_doc where
  "new_jsPDF = \<lparr>finished = [], current = []\<rparr>"

definition addPage :: "pdf_doc \<Rightarrow> pdf_doc" where
  "addPage pdf = \<lparr>finished = finished pdf @ [current pdf], current = []\<rparr>"

definition addImage :: "real \<Rightarrow> real \<Rightarrow> real \<Rightarrow> pdf_doc \<Rightarrow> pdf_doc" where
  "addImage y w h pdf = pdf\<lparr>current := current pdf @ [\<lparr>imgY = y, imgW = w, imgH = h\<rparr>]\<rparr>"

definition pages :: "pdf_doc \<Rightarrow> placed_image list list" where
  "pages pdf = finished pdf @ [current pdf]"

definition pdfWidth :: real where
  "pdfWidth = 210"

definition pdfHeight :: real where
  "pdfHeight = 297"

text \<open>
  \<open>(canvas.height * pdfWidth) / canvas.width\<close>. html2canvas is called with a fixed
  \<open>width\<close> and \<open>scale: 2\<close>, so the canvas is 1588 or 2400 pixels wide; a width of 0
  (where JavaScript would give \<open>NaN\<close> or \<open>Infinity\<close>) is outside this model.
\<close>

definition scaledHeight :: "nat \<Rightarrow> nat \<Rightarrow> real" where
  "scaledHeight canvasWidth canvasHeight = (of_nat canvasHeight * pdfWidth) / of_nat canvasWidth"

text \<open>
  The \<open>while (heightLeft > 0)\<close> loop, with the page size as parameters (the program
  passes 210 and 297). \<open>None\<close> stands for a loop that never ends. The variable
  \<open>position\<close> is assigned in the loop but never read there, so it is left out.
\<close>

partial_function (option) slice_loop ::
  "real \<Rightarrow> real \<Rightarrow> real \<Rightarrow> real \<Rightarrow> pdf_doc \<Rightarrow> pdf_doc option" where
  "slice_loop pageW pageH imgHeight heightLeft pdf =
     (if heightLeft > 0
      then slice_loop pageW pageH imgHeight (heightLeft - pageH)
             (addImage (- (imgHeight - heightLeft)) pageW imgHeight (addPage pdf))
      else Some pdf)"

declare slice_loop.simps [code]

definition slice_image :: "real \<Rightarrow> real \<Rightarrow> real \<Rightarrow> pdf_doc option" where
  "slice_image pageW pageH imgHeight =
     (let heightLeft = imgHeight;
          position = 0;
          pdf = addImage position pageW imgHeight new_jsPDF;
          heightLeft = heightLeft - pageH
      in slice_loop pageW pageH imgHeight heightLeft pdf)"

text \<open>The page a full image occupies when it is drawn shifted upward by \<open>k\<close> pages.\<close>

definition shifted_page :: "real \<Rightarrow> real \<Rightarrow> real \<Rightarrow> nat \<Rightarrow> placed_image list" where
  "shifted_page pageW pageH imgHeight k =
     [\<lparr>imgY = - (of_nat k * pageH), imgW = pageW, imgH = imgHeight\<rparr>]"

section \<open>File name of the export\<close>

text \<open>
  \<open>name.replace(/[^a-z0-9]/gi, '_').toLowerCase()\<close>. Without the \<open>u\<close> flag a
  case-insensitive class never folds a code unit from outside ASCII into ASCII, so the
  class \<open>[^a-z0-9]\<close> is exactly the complement of the ASCII letters and digits.
\<close>

definition is_alnum :: "16 word \<Rightarrow> bool" where
  "is_alnum c = ((0x30 \<le> c \<and> c \<le> 0x39) \<or> (0x41 \<le> c \<and> c \<le> 0x5A) \<or> (0x61 \<le> c \<and> c \<le> 0x7A))"

definition underscore :: "16 word" where
  "underscore = 0x5F"

definition replace_nonalnum :: "jsstring \<Rightarrow> jsstring" where
  "replace_nonalnum s = map (\<lambda>c. if is_alnum c then c else underscore) s"

definition ascii_lower :: "16 word \<Rightarrow> 16 word" where
  "ascii_lower c = (if 0x41 \<le> c \<and> c \<le> 0x5A then c + 0x20 else c)"

text \<open>
  \<open>String.prototype.toLowerCase\<close>: on a string of ASCII code units it lowers the letters
  A to Z and keeps everything else; what it does to any other string is the Unicode case
  mapping, taken here as the parameter \<open>unicodeLower\<close>.
\<close>

definition toLowerCase :: "(jsstring \<Rightarrow> jsstring) \<Rightarrow> jsstring \<Rightarrow> jsstring" where
  "toLowerCase unicodeLower s =
     (if list_all (\<lambda>c. c < 0x80) s then map ascii_lower s else unicodeLower s)"

definition safeName :: "(jsstring \<Rightarrow> jsstring) \<Rightarrow> jsstring \<Rightarrow> jsstring" where
  "safeName unicodeLower name = toLowerCase unicodeLower (replace_nonalnum name)"

definition is_lower_alnum :: "16 word \<Rightarrow> bool" where
  "is_lower_alnum c = ((0x30 \<le> c \<and> c \<le> 0x39) \<or> (0x61 \<le> c \<and> c \<le> 0x7A))"

text \<open>\<open>s.replace(/\\//g, '-')\<close> on the locale date of the second export.\<close>

definition replace_slashes :: "jsstring \<Rightarrow> jsstring" where
  "replace_slashes s = map (\<lambda>c. if c = 0x2F then 0x2D else c) s"

section \<open>Text normalizer (App.tsx, normalizeMarkdown)\<close>

text \<open>
  Each \<open>replace\<close> with a global regular expression scans the string from the left and,
  after a match, resumes behind it; matches never overlap.
  \<open>/([^\\n])\\n([^\\n])/g\<close> to \<open>'$1 $2'\<close>:
\<close>

fun replace_single_breaks :: "jsstring \<Rightarrow> jsstring" where
  "replace_single_breaks (a # b # c # rest) =
     (if a \<noteq> NL \<and> b = NL \<and> c \<noteq> NL
      then a # SP # c # replace_single_breaks rest
      else a # replace_single_breaks (b # c # rest))"
| "replace_single_breaks s = s"

text \<open>\<open>/\\n{3,}/g\<close> to two newlines: the quantifier is greedy and takes the whole run.\<close>

function limit_breaks :: "jsstring \<Rightarrow> jsstring" where
  "limit_breaks [] = []"
| "limit_breaks (c # cs) =
     (if c = NL \<and> 2 \<le> length (takeWhile (\<lambda>x. x = NL) cs)
      then NL # NL # limit_breaks (dropWhile (\<lambda>x. x = NL) cs)
      else c # limit_breaks cs)"
  by pat_completeness auto
termination
  by (relation "measure length") (auto simp: le_imp_less_Suc length_dropWhile_le)

text \<open>\<open>/  +/g\<close> to one space: a run of two or more spaces.\<close>

function collapse_spaces :: "jsstring \<Rightarrow> jsstring" where
  "collapse_spaces [] = []"
| "collapse_spaces (c # cs) =
     (if c = SP \<and> 1 \<le> length (takeWhile (\<lambda>x. x = SP) cs)
      then SP # collapse_spaces (dropWhile (\<lambda>x. x = SP) cs)
      else c # collapse_spaces cs)"
  by pat_completeness auto
termination
  by (relation "measure length") (auto simp: le_imp_less_Suc length_dropWhile_le)

definition normalizeMarkdown :: "jsstring \<Rightarrow> jsstring" where
  "normalizeMarkdown text =
     (if text = [] then []
      else collapse_spaces (limit_breaks (replace_single_breaks text)))"

section \<open>The two export operations\<close>

text \<open>
  The part of the browser the export handlers touch: the children of \<open>document.body\<close>
  (node identities), the \<open>isGeneratingPdf\<close> flag that disables the button, the calls
  to \<open>console.error\<close> and \<open>alert\<close>, and the files handed to \<open>pdf.save\<close>.
  Calls into the DOM and the libraries either complete with a value or raise.
\<close>

datatype 'a outcome = Completes 'a | Raises string

datatype completion = Normal | Thrown string

record browser =
  body :: "nat list"
  isGeneratingPdf :: bool
  console :: "string list list"
  alerts :: "string list"
  downloads :: "(jsstring \<times> placed_image list list) list"

text \<open>\<open>document.createElement\<close> yields a node that is not yet in the document.\<close>

definition createElement :: "nat list \<Rightarrow> nat" where
  "createElement nodes = Suc (fold max nodes 0)"

definition appendChild :: "nat \<Rightarrow> nat list \<Rightarrow> nat list" where
  "appendChild node nodes = nodes @ [node]"

definition removeChild :: "nat \<Rightarrow> nat list \<Rightarrow> nat list" where
  "removeChild node nodes = remove1 node nodes"

subsection \<open>App.tsx, handleDownloadReportPDF\<close>

text \<open>
  What one run meets: \<open>reportData\<close> (the student's name when there is a report),
  whether \<open>getElementById('printable-report')\<close> finds the element, the staging and
  measurement of the clone (the header's height, if any, and the \<open>.pdf-item\<close> elements),
  html2canvas on the paginated clone (the height of the canvas; its width is
  \<open>2 * 794\<close>), \<open>canvas.toDataURL\<close>, \<open>pdf.save\<close>, and the Unicode case mapping.
\<close>

record report_env =
  reportData :: "jsstring option"
  printableReport :: bool
  stagedReport :: "(int option \<times> pdf_item list) outcome"
  captureReport :: "pdf_item list \<Rightarrow> nat outcome"
  reportDataURL :: "unit outcome"
  reportSave :: "unit outcome"
  reportLower :: "jsstring \<Rightarrow> jsstring"

text \<open>The body of the \<open>try\<close> block: how it ends and the state it leaves.\<close>

definition report_try :: "report_env \<Rightarrow> jsstring \<Rightarrow> browser \<Rightarrow> (completion \<times> browser) option" where
  "report_try env name st =
     (if \<not> printableReport env then Some (Normal, st)
      else
        let container = createElement (body st);
            st1 = st\<lparr>body := appendChild container (body st)\<rparr>
        in case stagedReport env of
             Raises e \<Rightarrow> Some (Thrown e, st1)
           | Completes (header, items) \<Rightarrow>
               (case paginate header items of
                  (currentY, items') \<Rightarrow>
                    (case captureReport env items' of
                       Raises e \<Rightarrow> Some (Thrown e, st1)
                     | Completes canvasHeight \<Rightarrow>
                         let st2 = st1\<lparr>body := removeChild container (body st1)\<rparr>
                         in case reportDataURL env of
                              Raises e \<Rightarrow> Some (Thrown e, st2)
                            | Completes imgData \<Rightarrow>
                                (case slice_image pdfWidth pdfHeight
                                        (scaledHeight (2 * 794) canvasHeight) of
                                   None \<Rightarrow> None
                                 | Some pdf \<Rightarrow>
                                     let file = js ''Relatorio_'' @ safeName (reportLower env) name
                                                @ js ''.pdf''
                                     in case reportSave env of
                                          Raises e \<Rightarrow> Some (Thrown e, st2)
                                        | Completes saved \<Rightarrow>
                                            Some (Normal, st2\<lparr>downloads :=
                                                    downloads st2 @ [(file, pages pdf)]\<rparr>)))))"

definition report_catch :: "completion \<Rightarrow> browser \<Rightarrow> browser" where
  "report_catch c st =
     (case c of
        Normal \<Rightarrow> st
      | Thrown e \<Rightarrow> st\<lparr>console := console st @ [[e]],
                          alerts := alerts st @ [''Erro ao gerar PDF.'']\<rparr>)"

definition handleDownloadReportPDF :: "report_env \<Rightarrow> browser \<Rightarrow> browser option" where
  "handleDownloadReportPDF env st =
     (case reportData env of
        None \<Rightarrow> Some st
      | Some name \<Rightarrow>
          (case report_try env name (st\<lparr>isGeneratingPdf := True\<rparr>) of
             None \<Rightarrow> None
           | Some (c, st') \<Rightarrow> Some ((report_catch c st')\<lparr>isGeneratingPdf := False\<rparr>)))"

subsection \<open>ConsolidatedStudentView.tsx, handleDownloadPDF\<close>

text \<open>
  The same for the student view: the student's name, whether \<open>reportRef.current\<close> is
  set, the staging of the clone, html2canvas (the height of the canvas; its width is
  \<open>2 * 1200\<close>), \<open>canvas.toDataURL\<close>, \<open>pdf.save\<close>, today's date as
  \<open>toLocaleDateString('pt-BR')\<close> prints it, and the Unicode case mapping.
\<close>

record student_env =
  studentName :: jsstring
  reportRefCurrent :: bool
  stagedStudent :: "unit outcome"
  captureStudent :: "nat outcome"
  studentDataURL :: "unit outcome"
  studentSave :: "unit outcome"
  localeDate :: jsstring
  studentLower :: "jsstring \<Rightarrow> jsstring"

definition student_try :: "student_env \<Rightarrow> browser \<Rightarrow> (completion \<times> browser) option" where
  "student_try env st =
     (let container = createElement (body st);
          st1 = st\<lparr>body := appendChild container (body st)\<rparr>
      in case stagedStudent env of
           Raises e \<Rightarrow> Some (Thrown e, st1)
         | Completes staged \<Rightarrow>
             (case captureStudent env of
                Raises e \<Rightarrow> Some (Thrown e, st1)
              | Completes canvasHeight \<Rightarrow>
                  let st2 = st1\<lparr>body := removeChild container (body st1)\<rparr>
                  in case studentDataURL env of
                       Raises e \<Rightarrow> Some (Thrown e, st2)
                     | Completes imgData \<Rightarrow>
                         (case slice_image pdfWidth pdfHeight
                                 (scaledHeight (2 * 1200) canvasHeight) of
                            None \<Rightarrow> None
                          | Some pdf \<Rightarrow>
                              let file = js ''Relatorio_''
                                         @ safeName (studentLower env) (studentName env)
                                         @ js ''_'' @ replace_slashes (localeDate env)
                                         @ js ''.pdf''
                              in case studentSave env of
                                   Raises e \<Rightarrow> Some (Thrown e, st2)
                                 | Completes saved \<Rightarrow>
                                     Some (Normal, st2\<lparr>downloads :=
                                             downloads st2 @ [(file, pages pdf)]\<rparr>))))"

definition student_catch :: "completion \<Rightarrow> browser \<Rightarrow> browser" where
  "student_catch c st =
     (case c of
        Normal \<Rightarrow> st
      | Thrown e \<Rightarrow> st\<lparr>console := console st @ [[''PDF Generation failed'', e]],
                          alerts := alerts st @ [''Erro ao gerar PDF. Tente novamente.'']\<rparr>)"

definition handleDownloadPDF :: "student_env \<Rightarrow> browser \<Rightarrow> browser option" where
  "handleDownloadPDF env st =
     (let st0 = st\<lparr>isGeneratingPdf := True\<rparr>
      in if \<not> reportRefCurrent env then Some (st0\<lparr>isGeneratingPdf := False\<rparr>)
         else case student_try env st0 of
                None \<Rightarrow> None
              | Some (c, st') \<Rightarrow> Some ((student_catch c st')\<lparr>isGeneratingPdf := False\<rparr>))"

subsection \<open>Runs of the two operations\<close>

text \<open>Concrete runs: an idle page and, for each handler, a run in which html2canvas rejects.\<close>

definition idle :: browser where
  "idle = \<lparr>body = [], isGeneratingPdf = False, console = [], alerts = [], downloads = []\<rparr>"

definition capture_rejects :: "pdf_item list \<Rightarrow> nat outcome" where
  "capture_rejects items = Raises ''capture''"

definition rejected_report :: report_env where
  "rejected_report =
     \<lparr>reportData = Some (js ''Ana''), printableReport = True,
      stagedReport = Completes (None, [block 300 0 0]), captureReport = capture_rejects,
      reportDataURL = Completes (), reportSave = Completes (), reportLower = id\<rparr>"

definition rejected_student :: student_env where
  "rejected_student =
     \<lparr>studentName = js ''Ana'', reportRefCurrent = True, stagedStudent = Completes (),
      captureStudent = Raises ''capture'', studentDataURL = Completes (),
      studentSave = Completes (), localeDate = js ''03/11/2026'', studentLower = id\<rparr>"

section \<open>Properties of the page-break insertion\<close>





















lemmas item_eval = block_def nan_block_def totalItemHeight_def marginTop_def marginBottom_def
  or0_def paginate_step_def Let_def cursorAt_def nonneg_item_def topMargin_def straddles_def
  as_measured_def whole_def item_size_def exact_pixels_def
  PAGE_CONTENT_HEIGHT_def A4_HEIGHT_PX_def PADDING_BOTTOM_def paginate_def initialY_def






text \<open>
  Claim C6, as stated, fails: the run on the heights 300, 900 and 200 does not end at 2203,
  and the third block is not left alone.
\<close>

theorem scenario_counterexample:
  "fst (paginate None [block 300 0 0, block 900 0 0, block 200 0 0]) \<noteq> 2203
   \<and> snd (paginate None [block 300 0 0, block 900 0 0, block 200 0 0]) ! 2 \<noteq> block 200 0 0"
  by (simp add: item_eval)

text \<open>
  Claim C6, amended. With page content height 1063, cursor 0 and blocks of heights 300,
  900 and 200 with zero margins, block 2 is pushed by (1063 - 300) + 40 = 803, so it
  starts at 1103 and ends at 2003; block 3 would span 2003 to 2203 and so cross the cut at
  2126, hence it is pushed by (2126 - 2003) + 40 = 163 and spans 2166 to 2366; the final
  cursor is 2366.
\<close>

theorem scenario_actual:
  "paginate None [block 300 0 0, block 900 0 0, block 200 0 0]
     = (2366, [block 300 0 0,
               (block 900 0 0)\<lparr>styleMarginTop := Some 803\<rparr>,
               (block 200 0 0)\<lparr>styleMarginTop := Some 163\<rparr>])
   \<and> adjusted (initialY None)
       (snd (paginate None [block 300 0 0, block 900 0 0, block 200 0 0]))
     = [(0, 300), (1103, 2003), (2166, 2366)]"
  by (simp add: item_eval)




section \<open>Properties of the slicer\<close>

lemma pages_addImage_addPage:
  "pages (addImage y w h (addPage pdf)) = pages pdf @ [[\<lparr>imgY = y, imgW = w, imgH = h\<rparr>]]"
  by (simp add: pages_def addImage_def addPage_def)

lemma ceiling_step:
  assumes "0 < (P::real)"
  shows "\<lceil>(hl - P) / P\<rceil> = \<lceil>hl / P\<rceil> - 1"
proof -
  have "(hl - P) / P = hl / P - 1"
    using assms by (simp add: diff_divide_distrib)
  then show ?thesis by simp
qed

lemma map_upt_shift: "map f [0..<Suc n] = f 0 # map (f \<circ> Suc) [0..<n]"
proof -
  have "[0..<Suc n] = 0 # map Suc [0..<n]"
    by (simp add: upt_conv_Cons map_Suc_upt del: upt_Suc)
  then show ?thesis
    by (simp only: list.map map_map)
qed

lemma slice_loop_pages:
  assumes "0 < P"
  shows "\<exists>pdf'. slice_loop W P H hl pdf = Some pdf'
           \<and> pages pdf' = pages pdf
               @ map (\<lambda>j. [\<lparr>imgY = - (H - (hl - of_nat j * P)), imgW = W, imgH = H\<rparr>])
                   [0..<nat \<lceil>hl / P\<rceil>]"
proof (induction "nat \<lceil>hl / P\<rceil>" arbitrary: hl pdf)
  case 0
  then have "hl / P \<le> 0"
    by (simp add: ceiling_le_iff)
  then have "hl \<le> 0"
    using assms by (simp add: divide_le_0_iff)
  then have "slice_loop W P H hl pdf = Some pdf"
    by (subst slice_loop.simps) simp
  with 0 show ?case by simp
next
  case (Suc n)
  have pos: "0 < hl"
  proof (rule ccontr)
    assume "\<not> 0 < hl"
    then have "hl / P \<le> 0"
      using assms by (simp add: divide_le_0_iff)
    then have "nat \<lceil>hl / P\<rceil> = 0"
      by (simp add: ceiling_le_iff)
    with Suc(2) show False by simp
  qed
  let ?pdf = "addImage (- (H - hl)) W H (addPage pdf)"
  have n: "n = nat \<lceil>(hl - P) / P\<rceil>"
    using Suc(2) by (simp add: ceiling_step [OF assms])
  from Suc(1) [OF n, of ?pdf] obtain pdf' where
    r: "slice_loop W P H (hl - P) ?pdf = Some pdf'" and
    p: "pages pdf' = pages ?pdf
          @ map (\<lambda>j. [\<lparr>imgY = - (H - (hl - P - of_nat j * P)), imgW = W, imgH = H\<rparr>])
              [0..<nat \<lceil>(hl - P) / P\<rceil>]"
    by blast
  have unfold: "slice_loop W P H hl pdf = slice_loop W P H (hl - P) ?pdf"
    using pos by (subst slice_loop.simps) simp
  have "map (\<lambda>j. [\<lparr>imgY = - (H - (hl - of_nat j * P)), imgW = W, imgH = H\<rparr>]) [0..<Suc n]
      = [\<lparr>imgY = - (H - hl), imgW = W, imgH = H\<rparr>]
        # map (\<lambda>j. [\<lparr>imgY = - (H - (hl - P - of_nat j * P)), imgW = W, imgH = H\<rparr>]) [0..<n]"
    by (simp only: map_upt_shift) (simp add: algebra_simps)
  with r p unfold n Suc(2) [symmetric] show ?case
    by (simp add: pages_addImage_addPage)
qed

lemma slice_image_pages:
  assumes "0 < P"
  shows "\<exists>pdf. slice_image W P H = Some pdf
           \<and> pages pdf = map (shifted_page W P H) [0..<Suc (nat \<lceil>(H - P) / P\<rceil>)]"
proof -
  let ?pdf = "addImage 0 W H new_jsPDF"
  from slice_loop_pages [OF assms, of W H "H - P" ?pdf] obtain pdf' where
    r: "slice_loop W P H (H - P) ?pdf = Some pdf'" and
    p: "pages pdf' = pages ?pdf
          @ map (\<lambda>j. [\<lparr>imgY = - (H - (H - P - of_nat j * P)), imgW = W, imgH = H\<rparr>])
              [0..<nat \<lceil>(H - P) / P\<rceil>]"
    by blast
  have first: "pages ?pdf = [shifted_page W P H 0]"
    by (simp add: pages_def addImage_def new_jsPDF_def shifted_page_def)
  have rest: "map (\<lambda>j. [\<lparr>imgY = - (H - (H - P - of_nat j * P)), imgW = W, imgH = H\<rparr>])
               [0..<nat \<lceil>(H - P) / P\<rceil>]
           = map (shifted_page W P H \<circ> Suc) [0..<nat \<lceil>(H - P) / P\<rceil>]"
    by (simp add: shifted_page_def algebra_simps)
  have "map (shifted_page W P H) [0..<Suc (nat \<lceil>(H - P) / P\<rceil>)]
      = shifted_page W P H 0 # map (shifted_page W P H \<circ> Suc) [0..<nat \<lceil>(H - P) / P\<rceil>]"
    by (simp only: map_upt_shift)
  with r p first rest show ?thesis
    by (simp add: slice_image_def Let_def)
qed

lemma pages_count:
  assumes "0 < (P::real)" "0 < H"
  shows "Suc (nat \<lceil>(H - P) / P\<rceil>) = nat \<lceil>H / P\<rceil>"
proof -
  have "0 < H / P" using assms by simp
  then have "0 \<le> \<lceil>H / P\<rceil> - 1" by (simp add: less_ceiling_iff)
  then have "Suc (nat (\<lceil>H / P\<rceil> - 1)) = nat (1 + (\<lceil>H / P\<rceil> - 1))"
    by (rule Suc_nat_eq_nat_zadd1)
  then show ?thesis
    by (simp add: ceiling_step [OF assms(1)])
qed

text \<open>
  Claim C4. For a positive scaled image height \<open>H\<close> and a positive page height \<open>P\<close> the
  slicer returns, with exactly \<open>ceil(H / P)\<close> pages, and the page with zero-based index
  \<open>k\<close> holds the full image shifted upward by \<open>k * P\<close>.
\<close>

theorem slicer_page_count:
  assumes "0 < H" and "0 < P"
  shows "\<exists>pdf. slice_image W P H = Some pdf
           \<and> length (pages pdf) = nat \<lceil>H / P\<rceil>
           \<and> (\<forall>k < nat \<lceil>H / P\<rceil>.
                 pages pdf ! k = [\<lparr>imgY = - (of_nat k * P), imgW = W, imgH = H\<rparr>])"
proof -
  from slice_image_pages [OF assms(2), of W H] obtain pdf where
    "slice_image W P H = Some pdf" and
    "pages pdf = map (shifted_page W P H) [0..<Suc (nat \<lceil>(H - P) / P\<rceil>)]"
    by blast
  then have "slice_image W P H = Some pdf
      \<and> pages pdf = map (shifted_page W P H) [0..<nat \<lceil>H / P\<rceil>]"
    by (simp only: pages_count [OF assms(2,1)])
  then show ?thesis
    by (intro exI [of _ pdf]) (simp add: shifted_page_def)
qed

text \<open>
  Claim C4 for a scaled height of 1500 on pages of 297: six pages, the last one showing
  the image shifted by 5 * 297 = 1485.
\<close>

theorem slicer_page_count_witness:
  "(0::real) < 1500 \<and> 0 < pdfHeight
   \<and> (\<exists>pdf. slice_image pdfWidth pdfHeight 1500 = Some pdf
          \<and> length (pages pdf) = 6
          \<and> pages pdf ! 5 = [\<lparr>imgY = - 1485, imgW = pdfWidth, imgH = 1500\<rparr>])"
proof -
  have h: "(0::real) < 1500" "0 < pdfHeight"
    by (simp_all add: pdfHeight_def)
  have n: "nat \<lceil>1500 / pdfHeight\<rceil> = 6"
    by (simp add: pdfHeight_def)
  from slicer_page_count [OF h, of pdfWidth] obtain pdf where
    "slice_image pdfWidth pdfHeight 1500 = Some pdf"
    "length (pages pdf) = nat \<lceil>1500 / pdfHeight\<rceil>"
    "\<forall>k < nat \<lceil>1500 / pdfHeight\<rceil>.
        pages pdf ! k = [\<lparr>imgY = - (of_nat k * pdfHeight), imgW = pdfWidth, imgH = 1500\<rparr>]"
    by blast
  then have "slice_image pdfWidth pdfHeight 1500 = Some pdf \<and> length (pages pdf) = 6
      \<and> pages pdf ! 5 = [\<lparr>imgY = - 1485, imgW = pdfWidth, imgH = 1500\<rparr>]"
    using n by (simp add: pdfHeight_def)
  with h show ?thesis by blast
qed

text \<open>
  Claim C9. For every scaled image height, positive or not, the slicer returns a
  document whose first page holds the image at offset 0; when the image is no taller
  than a page (in particular when its height is 0) that page is the only one.
\<close>

theorem first_page_unconditional:
  "\<exists>pdf rest. slice_image pdfWidth pdfHeight H = Some pdf
       \<and> pages pdf = [\<lparr>imgY = 0, imgW = pdfWidth, imgH = H\<rparr>] # rest
       \<and> (H \<le> pdfHeight \<longrightarrow> rest = [])"
proof -
  have P: "0 < pdfHeight" by (simp add: pdfHeight_def)
  from slice_image_pages [OF P, of pdfWidth H] obtain pdf where
    r: "slice_image pdfWidth pdfHeight H = Some pdf" and
    p: "pages pdf = map (shifted_page pdfWidth pdfHeight H)
                      [0..<Suc (nat \<lceil>(H - pdfHeight) / pdfHeight\<rceil>)]"
    by blast
  let ?rest = "map (shifted_page pdfWidth pdfHeight H \<circ> Suc) [0..<nat \<lceil>(H - pdfHeight) / pdfHeight\<rceil>]"
  have "pages pdf = shifted_page pdfWidth pdfHeight H 0 # ?rest"
    using p by (simp only: map_upt_shift)
  moreover have "?rest = []" if "H \<le> pdfHeight"
  proof -
    have "(H - pdfHeight) / pdfHeight \<le> 0"
      using that P by (simp add: divide_le_0_iff)
    then show ?thesis by (simp add: ceiling_le_iff)
  qed
  ultimately show ?thesis
    using r by (intro exI [of _ pdf] exI [of _ ?rest]) (simp add: shifted_page_def)
qed

text \<open>
  Claim C9 for a bitmap of height 0: one page.
\<close>

theorem first_page_unconditional_witness:
  "\<exists>pdf. slice_image pdfWidth pdfHeight 0 = Some pdf
       \<and> pages pdf = [[\<lparr>imgY = 0, imgW = pdfWidth, imgH = 0\<rparr>]]"
  using first_page_unconditional [of 0] by (auto simp: pdfHeight_def)

section \<open>Properties of the file name\<close>

lemma alnum_ascii: "is_alnum c \<Longrightarrow> c < 0x80"
  by (auto simp: is_alnum_def elim: order_le_less_trans)

lemma replace_nonalnum_ascii: "list_all (\<lambda>c. c < 0x80) (replace_nonalnum s)"
  by (induction s) (simp_all add: replace_nonalnum_def alnum_ascii underscore_def)

lemma safeName_map:
  "safeName U name = map (\<lambda>c. if is_alnum c then ascii_lower c else underscore) name"
proof -
  have "ascii_lower underscore = underscore"
    by (simp add: ascii_lower_def underscore_def)
  then have "map ascii_lower (replace_nonalnum name)
      = map (\<lambda>c. if is_alnum c then ascii_lower c else underscore) name"
    by (simp add: replace_nonalnum_def)
  then show ?thesis
    by (simp add: safeName_def toLowerCase_def replace_nonalnum_ascii)
qed

lemma upper_to_lower:
  assumes "0x41 \<le> (c::16 word)" "c \<le> 0x5A"
  shows "0x61 \<le> c + 0x20 \<and> c + 0x20 \<le> 0x7A"
  using assms by (simp add: word_le_nat_alt unat_word_ariths) 

lemma lower_alnum: "is_alnum c \<Longrightarrow> is_lower_alnum (ascii_lower c)"
  using upper_to_lower [of c]
  by (auto simp: is_alnum_def is_lower_alnum_def ascii_lower_def)

lemmas name_eval = js_def is_alnum_def ascii_lower_def underscore_def is_lower_alnum_def

text \<open>
  Claim C5, as stated, fails: the space of the name \<open>a b\<close> is not stripped, it becomes an
  underscore, which is not alphanumeric.
\<close>

theorem safeName_counterexample:
  "safeName id (js ''a b'') = js ''a_b'' \<and> \<not> list_all is_lower_alnum (safeName id (js ''a b''))"
  by (simp add: name_eval safeName_def toLowerCase_def replace_nonalnum_def)

text \<open>
  Claim C5, amended. The file name token replaces every code unit that is not an ASCII
  letter or digit by an underscore (it is not stripped) and lowers the letters: the token
  is as long as the name and holds only lowercase ASCII letters, digits and
  underscores.
\<close>

theorem safeName_shape:
  "safeName U name = map (\<lambda>c. if is_alnum c then ascii_lower c else underscore) name
   \<and> length (safeName U name) = length name
   \<and> list_all (\<lambda>c. is_lower_alnum c \<or> c = underscore) (safeName U name)"
proof -
  have "list_all (\<lambda>c. is_lower_alnum c \<or> c = underscore)
          (map (\<lambda>c. if is_alnum c then ascii_lower c else underscore) name)"
    by (induction name) (simp_all add: lower_alnum)
  then show ?thesis
    by (simp add: safeName_map)
qed

text \<open>
  The amended claim C5 on the name Joao D'Avila Jr. written with its two accented letters
  (code units E3 and C1).
\<close>

theorem safeName_shape_witness:
  "safeName id (js ''Jo'' @ [0xE3] @ js ''o D'' @ [0x27, 0xC1] @ js ''vila Jr.'')
     = js ''jo_o_d__vila_jr_''"
  using safeName_shape [of id "js ''Jo'' @ [0xE3] @ js ''o D'' @ [0x27, 0xC1] @ js ''vila Jr.''"]
  by (simp add: name_eval)

section \<open>The text normalizer is not idempotent\<close>

lemmas text_eval = js_def NL_def SP_def normalizeMarkdown_def

text \<open>
  Claim C10 fails on three one-letter lines: the first pass joins the first two lines
  only, because the match that consumed the second letter cannot start the next match,
  so a single newline between two letters remains; a second pass removes it.
\<close>

theorem normalizeMarkdown_second_pass:
  "normalizeMarkdown (js ''a'' @ [NL] @ js ''b'' @ [NL] @ js ''c'') = js ''a b'' @ [NL] @ js ''c''
   \<and> normalizeMarkdown (normalizeMarkdown (js ''a'' @ [NL] @ js ''b'' @ [NL] @ js ''c''))
       = js ''a b c''"
  by (simp add: text_eval)

section \<open>Properties of the export operations\<close>

lemma slice_image_not_None: "slice_image pdfWidth pdfHeight H \<noteq> None"
proof -
  have "0 < pdfHeight" by (simp add: pdfHeight_def)
  from slice_image_pages [OF this, of pdfWidth H] show ?thesis by auto
qed

lemma report_try_returns: "\<exists>c st'. report_try env name st = Some (c, st')"
  by (auto simp: report_try_def Let_def slice_image_not_None
      split: outcome.splits prod.splits option.splits)

lemma student_try_returns: "\<exists>c st'. student_try env st = Some (c, st')"
  by (auto simp: student_try_def Let_def slice_image_not_None
      split: outcome.splits prod.splits option.splits)

lemmas run_eval = handleDownloadReportPDF_def handleDownloadPDF_def report_try_def student_try_def
  report_catch_def student_catch_def Let_def idle_def rejected_report_def
  rejected_student_def capture_rejects_def createElement_def appendChild_def removeChild_def

text \<open>
  Claim C2 does not hold of the code. The claim: on every run, also when a stage raises,
  the staging container is removed from the body before the operation returns. The
  code: \<open>document.body.removeChild(container)\<close> is a statement of the \<open>try\<close> block
  behind \<open>html2canvas\<close>, so a run in which html2canvas rejects goes to \<open>catch\<close> and
  \<open>finally\<close> without reaching it. On a page whose body has no children, both handlers
  then return with the container (node 1) still attached.
\<close>

theorem container_left_attached:
  "body idle = []
   \<and> handleDownloadReportPDF rejected_report idle
     = Some (idle\<lparr>body := [1], console := [[''capture'']], alerts := [''Erro ao gerar PDF.'']\<rparr>)
   \<and> handleDownloadPDF rejected_student idle
     = Some (idle\<lparr>body := [1], console := [[''PDF Generation failed'', ''capture'']],
                  alerts := [''Erro ao gerar PDF. Tente novamente.'']\<rparr>)"
  by (simp add: run_eval paginate_def)

text \<open>
  Claim C8. When there is no report data the first handler starts no export and leaves
  the state as it is. Otherwise, whatever each stage does (complete or raise), both
  handlers return and the flag \<open>isGeneratingPdf\<close> is false afterwards.
\<close>

theorem busy_flag_reset:
  "(reportData env = None \<longrightarrow> handleDownloadReportPDF env st = Some st)
   \<and> (reportData env \<noteq> None \<longrightarrow>
        (\<exists>st'. handleDownloadReportPDF env st = Some st' \<and> \<not> isGeneratingPdf st'))
   \<and> (\<exists>st'. handleDownloadPDF senv st = Some st' \<and> \<not> isGeneratingPdf st')"
proof (intro conjI impI)
  assume "reportData env = None"
  then show "handleDownloadReportPDF env st = Some st"
    by (simp add: handleDownloadReportPDF_def)
next
  assume "reportData env \<noteq> None"
  then obtain name where name: "reportData env = Some name"
    by auto
  obtain c st1 where "report_try env name (st\<lparr>isGeneratingPdf := True\<rparr>) = Some (c, st1)"
    using report_try_returns by blast
  with name show "\<exists>st'. handleDownloadReportPDF env st = Some st' \<and> \<not> isGeneratingPdf st'"
    by (simp add: handleDownloadReportPDF_def)
next
  show "\<exists>st'. handleDownloadPDF senv st = Some st' \<and> \<not> isGeneratingPdf st'"
  proof (cases "reportRefCurrent senv")
    case False
    then show ?thesis
      by (simp add: handleDownloadPDF_def Let_def)
  next
    case True
    obtain c st1 where "student_try senv (st\<lparr>isGeneratingPdf := True\<rparr>) = Some (c, st1)"
      using student_try_returns by blast
    with True show ?thesis
      by (simp add: handleDownloadPDF_def Let_def)
  qed
qed

text \<open>
  Claim C8 on two runs in which html2canvas rejects.
\<close>

theorem busy_flag_reset_witness:
  "reportData rejected_report \<noteq> None
   \<and> (\<exists>st'. handleDownloadReportPDF rejected_report idle = Some st' \<and> \<not> isGeneratingPdf st')
   \<and> (\<exists>st'. handleDownloadPDF rejected_student idle = Some st' \<and> \<not> isGeneratingPdf st')"
proof -
  have d: "reportData rejected_report \<noteq> None"
    by (simp add: run_eval)
  from d busy_flag_reset [of rejected_report idle rejected_student]
  show ?thesis by simp
qed

end
